theory Spec2Isabelle
  imports Main
begin

section \<open>Discovery of prompt instruction files\<close>

text \<open>
  The embedding follows \<^verbatim>\<open>promptInstructionsAttachment.ts\<close>. Resource identifiers
  (\<^verbatim>\<open>URI\<close>) are kept abstract as a type variable \<open>'uri\<close>: the code only passes
  them around, joins a relative path onto them and tests them for being defined.
  \<^verbatim>\<open>URI.joinPath\<close> lives in another module, so every function that uses it
  takes it as the parameter \<open>joinPath\<close>.
\<close>

definition INSTRUCTIONS_FOLDER_NAME :: string where
  "INSTRUCTIONS_FOLDER_NAME = ''.copilot/instructions''"

definition INSTRUCTIONS_FILE_EXTENSION :: string where
  "INSTRUCTIONS_FILE_EXTENSION = ''.md''"

text \<open>
  \<^verbatim>\<open>String.prototype.endsWith(searchString)\<close> with the default end position:
  the start index is the length of the string minus the length of the search string; a
  negative start gives \<open>False\<close>, otherwise the code units from the start on are compared
  one by one, with no case folding.
\<close>

definition endsWith :: "string \<Rightarrow> string \<Rightarrow> bool" where
  "endsWith s searchString =
     (if length s < length searchString then False
      else drop (length s - length searchString) s = searchString)"

text \<open>
  \<^verbatim>\<open>WorkbenchState\<close>, \<^verbatim>\<open>IWorkspaceFolder\<close>, \<^verbatim>\<open>IWorkspace\<close> and the workspace
  service are declared in \<^verbatim>\<open>platform/workspace/common/workspace.js\<close>; the reader
  uses the state, the ordered folder list and each folder's \<^verbatim>\<open>uri\<close>.
\<close>

datatype WorkbenchState = EMPTY | FOLDER | WORKSPACE

datatype 'uri IWorkspaceFolder = IWorkspaceFolder (uri: 'uri)

record 'uri IWorkspace =
  folders :: "'uri IWorkspaceFolder list"

record 'uri IWorkspaceContextService =
  getWorkbenchState :: WorkbenchState
  getWorkspace :: "'uri IWorkspace"

text \<open>
  \<^verbatim>\<open>IFileStat\<close>: \<^verbatim>\<open>children\<close> is optional (\<open>None\<close> is \<^verbatim>\<open>undefined\<close>). An empty
  array is a defined value in JavaScript, so \<^verbatim>\<open>!stat.children\<close> holds for \<open>None\<close> only.
\<close>

datatype 'uri IFileStat =
  IFileStat (name: string) (resource: 'uri) (isDirectory: bool)
            (children: "'uri IFileStat list option")

record 'uri IFileStatResult =
  stat :: "'uri IFileStat option"
  success :: bool

text \<open>
  The file service is a collaborator. Its answer to a batch is the function
  \<open>resolveAll_answer\<close>; \<open>requests\<close> is the list of batches it has received so far, so
  that every invocation of \<^verbatim>\<open>resolveAll\<close> is visible in the state. A request object
  \<^verbatim>\<open>{ resource: location }\<close> has the location as its only field and is modelled by
  the location itself.
\<close>

record 'uri IFileService =
  resolveAll_answer :: "'uri list \<Rightarrow> 'uri IFileStatResult list"
  requests :: "'uri list list"

definition resolveAll ::
  "'uri IFileService \<Rightarrow> 'uri list \<Rightarrow> 'uri IFileStatResult list \<times> 'uri IFileService" where
  "resolveAll fs toResolve =
     (resolveAll_answer fs toResolve, fs\<lparr>requests := requests fs @ [toResolve]\<rparr>)"

record 'uri PromptInstructionsFileReader =
  fileService :: "'uri IFileService"
  workspaceService :: "'uri IWorkspaceContextService"

definition getSourceLocations ::
  "('uri \<Rightarrow> string \<Rightarrow> 'uri) \<Rightarrow> 'uri PromptInstructionsFileReader \<Rightarrow> 'uri list" where
  "getSourceLocations joinPath this =
     (let state = getWorkbenchState (workspaceService this) in
      if state = EMPTY then []
      else map (\<lambda>folder. joinPath (uri folder) INSTRUCTIONS_FOLDER_NAME)
               (folders (getWorkspace (workspaceService this))))"

text \<open>
  The inner loop over \<^verbatim>\<open>stat.children\<close>: each branch that ends in \<^verbatim>\<open>continue\<close>
  goes on with the rest and the same \<^verbatim>\<open>files\<close>; \<^verbatim>\<open>files.push\<close> appends at the end.
\<close>

fun scanChildren :: "'uri IFileStat list \<Rightarrow> 'uri list \<Rightarrow> 'uri list" where
  "scanChildren [] files = files"
| "scanChildren (child # rest) files =
     (if isDirectory child then scanChildren rest files
      else if \<not> endsWith (name child) INSTRUCTIONS_FILE_EXTENSION then scanChildren rest files
      else scanChildren rest (files @ [resource child]))"

text \<open>The outer loop over the results of the batch.\<close>

fun scanResults :: "'uri IFileStatResult list \<Rightarrow> 'uri list \<Rightarrow> 'uri list" where
  "scanResults [] files = files"
| "scanResults (result # rest) files =
     (if \<not> success result then scanResults rest files
      else case stat result of
        None \<Rightarrow> scanResults rest files
      | Some st \<Rightarrow>
          (case children st of
             None \<Rightarrow> scanResults rest files
           | Some cs \<Rightarrow> scanResults rest (scanChildren cs files)))"

definition findInstructionsFiles ::
  "'uri PromptInstructionsFileReader \<Rightarrow> 'uri list
     \<Rightarrow> 'uri list \<times> 'uri PromptInstructionsFileReader" where
  "findInstructionsFiles this locations =
     (let (results, fs) = resolveAll (fileService this) locations in
      (scanResults results [], this\<lparr>fileService := fs\<rparr>))"

definition listFiles ::
  "('uri \<Rightarrow> string \<Rightarrow> 'uri) \<Rightarrow> 'uri PromptInstructionsFileReader
     \<Rightarrow> 'uri list \<times> 'uri PromptInstructionsFileReader" where
  "listFiles joinPath this =
     (let locations = getSourceLocations joinPath this in
      findInstructionsFiles this locations)"

section \<open>The attachment widget\<close>

text \<open>
  Widgets and attachment models are objects that are shared and mutated in place: the
  widget keeps a reference to its model and reads it whenever it needs it, and
  \<^verbatim>\<open>toggle\<close> returns the receiver. The embedding therefore uses an explicit store:
  references are addresses, and the store maps an address to the object's fields.
\<close>

type_synonym ref = nat

text \<open>
  \<^verbatim>\<open>ChatAttachmentModel\<close> is declared in \<^verbatim>\<open>chatAttachmentModel.js\<close>. The widget reads
  its optional \<^verbatim>\<open>promptInstructions\<close>, and of that the \<^verbatim>\<open>uri\<close> and the
  \<^verbatim>\<open>validFileReferenceUris\<close>.
\<close>

record 'uri PromptInstructions =
  uri :: 'uri
  validFileReferenceUris :: "'uri list"

record 'uri ChatAttachmentModel =
  promptInstructions :: "'uri PromptInstructions option"

text \<open>
  The fields of the widget. \<open>priv_enabled\<close> and \<open>priv_uri\<close> are the private fields
  \<^verbatim>\<open>_enabled\<close> and \<^verbatim>\<open>_uri\<close> (an Isabelle name cannot begin with an underscore).
  \<open>isDisposed\<close> is the state of the store of the \<^verbatim>\<open>Disposable\<close> base class, which
  holds what the class has passed to \<^verbatim>\<open>_register\<close>: the subscription to
  \<^verbatim>\<open>onDidChangeContext\<close> and \<^verbatim>\<open>renderDisposables\<close>. The emitter
  \<^verbatim>\<open>_onEnabledStateChange\<close> is created with \<^verbatim>\<open>new Emitter<void>()\<close> and is not
  passed to \<^verbatim>\<open>_register\<close>, so it has no state that disposal could change.
\<close>

record 'uri PromptInstructionsAttachmentWidget =
  attachmentsModel :: ref
  priv_enabled :: bool
  priv_uri :: "'uri option"
  isDisposed :: bool

text \<open>
  What a widget does to its surroundings: a delivery of \<^verbatim>\<open>onEnabledStateChange\<close> and
  a run of \<^verbatim>\<open>render\<close>, the latter with the argument \<^verbatim>\<open>!!this._uri\<close> that it hands to
  \<^verbatim>\<open>dom.setVisibility\<close>. The store records them in order, with the acting widget.
\<close>

datatype effect = EnabledStateChange | Render bool

record 'uri heap =
  models :: "ref \<Rightarrow> 'uri ChatAttachmentModel"
  widgets :: "ref \<Rightarrow> 'uri PromptInstructionsAttachmentWidget"
  effects :: "(ref \<times> effect) list"

definition visible :: "ref \<Rightarrow> 'uri heap \<Rightarrow> bool" where
  "visible this h = (\<not> \<not> (priv_uri (widgets h this) \<noteq> None))"

text \<open>
  \<^verbatim>\<open>render\<close> rebuilds the DOM subtree of the widget. The DOM, the buttons, the hover
  and the context menu belong to the rendering toolkit; the embedding keeps the fact
  that \<^verbatim>\<open>render\<close> ran and the visibility it set. It writes no field of the widget.
\<close>

definition render :: "ref \<Rightarrow> 'uri heap \<Rightarrow> 'uri heap" where
  "render this h =
     h\<lparr>effects := effects h @ [(this, Render (\<not> \<not> (priv_uri (widgets h this) \<noteq> None)))]\<rparr>"

text \<open>
  \<^verbatim>\<open>this._onEnabledStateChange.fire()\<close>: the emitter is never disposed by this
  class, so every call delivers the event.
\<close>

definition fire_onEnabledStateChange :: "ref \<Rightarrow> 'uri heap \<Rightarrow> 'uri heap" where
  "fire_onEnabledStateChange this h = h\<lparr>effects := effects h @ [(this, EnabledStateChange)]\<rparr>"

definition toggle :: "ref \<Rightarrow> 'uri heap \<Rightarrow> ref \<times> 'uri heap" where
  "toggle this h =
     (let w = widgets h this;
          h1 = h\<lparr>widgets := (widgets h)(this := w\<lparr>priv_enabled := \<not> priv_enabled w\<rparr>)\<rparr>;
          h2 = fire_onEnabledStateChange this h1;
          h3 = render this h2
      in (this, h3))"

definition references :: "ref \<Rightarrow> 'uri heap \<Rightarrow> 'uri list" where
  "references this h =
     (case promptInstructions (models h (attachmentsModel (widgets h this))) of
        None \<Rightarrow> []
      | Some p \<Rightarrow> validFileReferenceUris p @ [uri p])"

text \<open>
  The listener that the constructor passes to \<^verbatim>\<open>attachmentsModel.onDidChangeContext\<close>;
  \<^verbatim>\<open>promptInstructions?.uri\<close> is \<^verbatim>\<open>undefined\<close> when there is no association.
\<close>

definition onDidChangeContext_listener :: "ref \<Rightarrow> 'uri heap \<Rightarrow> 'uri heap" where
  "onDidChangeContext_listener this h =
     (let w = widgets h this;
          u = map_option uri (promptInstructions (models h (attachmentsModel w)));
          h1 = h\<lparr>widgets := (widgets h)(this := w\<lparr>priv_uri := u\<rparr>)\<rparr>
      in render this h1)"

text \<open>
  The constructor stores the model reference, starts with \<^verbatim>\<open>_enabled = true\<close> and no
  \<^verbatim>\<open>_uri\<close>, registers the listener and renders once. It does not read the model.
\<close>

definition constructor :: "ref \<Rightarrow> ref \<Rightarrow> 'uri heap \<Rightarrow> 'uri heap" where
  "constructor this model h =
     render this
       (h\<lparr>widgets := (widgets h)(this :=
            \<lparr>attachmentsModel = model, priv_enabled = True, priv_uri = None,
             isDisposed = False\<rparr>)\<rparr>)"

text \<open>
  Modelled from the spec: \<^verbatim>\<open>Disposable.dispose\<close> of \<^verbatim>\<open>base/common/lifecycle.js\<close>,
  which the widget inherits, is not among the sources. The specification says that
  disposal releases the change-notification subscription and the render-scoped
  resources and that it is idempotent: a second call finds the store disposed and
  does nothing.
\<close>

definition dispose :: "ref \<Rightarrow> 'uri heap \<Rightarrow> 'uri heap" where
  "dispose this h =
     (let w = widgets h this in
      if isDisposed w then h
      else h\<lparr>widgets := (widgets h)(this := w\<lparr>isDisposed := True\<rparr>)\<rparr>)"

text \<open>
  Modelled from the spec: the emitter behind \<^verbatim>\<open>onDidChangeContext\<close> belongs to the
  attachment model and is not among the sources. An emission of the model reaches the
  listener of a widget as long as the subscription has not been released, that is, as
  long as the store that holds the subscription has not been disposed.
\<close>

definition onDidChangeContext_fire :: "ref \<Rightarrow> 'uri heap \<Rightarrow> 'uri heap" where
  "onDidChangeContext_fire this h =
     (if isDisposed (widgets h this) then h else onDidChangeContext_listener this h)"

text \<open>
  The code of the class that runs on an existing widget: \<^verbatim>\<open>toggle\<close>, the listener,
  \<^verbatim>\<open>render\<close> and the two getters. \<^verbatim>\<open>dispose\<close> is inherited and knows none of the
  fields of the class.
\<close>

datatype operation = Toggle | DidChangeContext | CallRender | GetVisible | GetReferences

fun exec :: "operation \<Rightarrow> ref \<Rightarrow> 'uri heap \<Rightarrow> 'uri heap" where
  "exec Toggle this h = snd (toggle this h)"
| "exec DidChangeContext this h = onDidChangeContext_listener this h"
| "exec CallRender this h = render this h"
| "exec GetVisible this h = h"
| "exec GetReferences this h = h"

definition count_effect :: "ref \<Rightarrow> (effect \<Rightarrow> bool) \<Rightarrow> 'uri heap \<Rightarrow> nat" where
  "count_effect this P h = length (filter (\<lambda>(w, e). w = this \<and> P e) (effects h))"

definition is_Render :: "effect \<Rightarrow> bool" where
  "is_Render e = (case e of Render b \<Rightarrow> True | EnabledStateChange \<Rightarrow> False)"

definition is_EnabledStateChange :: "effect \<Rightarrow> bool" where
  "is_EnabledStateChange e = (case e of EnabledStateChange \<Rightarrow> True | Render b \<Rightarrow> False)"

section \<open>Concrete inputs\<close>

text \<open>
  For the examples, a resource identifier is its path as a string, and joining puts a
  slash between the base and the relative path.
\<close>

definition example_joinPath :: "string \<Rightarrow> string \<Rightarrow> string" where
  "example_joinPath base path = base @ ''/'' @ path"

definition failed :: "string IFileStatResult" where
  "failed = \<lparr>stat = None, success = False\<rparr>"

definition plain_file :: "string \<Rightarrow> string \<Rightarrow> string IFileStat" where
  "plain_file dir n = IFileStat n (example_joinPath dir n) False None"

definition directory :: "string \<Rightarrow> string \<Rightarrow> string IFileStat list \<Rightarrow> string IFileStat" where
  "directory dir n cs = IFileStat n (example_joinPath dir n) True (Some cs)"

text \<open>A workspace without folders; the storage answers every location with a failure.\<close>

definition empty_reader :: "string PromptInstructionsFileReader" where
  "empty_reader =
     \<lparr>fileService = \<lparr>resolveAll_answer = map (\<lambda>location. failed), requests = []\<rparr>,
      workspaceService = \<lparr>getWorkbenchState = EMPTY, getWorkspace = \<lparr>folders = []\<rparr>\<rparr>\<rparr>"

text \<open>
  Two folders \<open>F1\<close> and \<open>F2\<close>: the instructions folder of \<open>F1\<close> holds \<open>a.md\<close> and
  \<open>b.txt\<close>, the one of \<open>F2\<close> does not resolve.
\<close>

definition F1_instructions :: "string IFileStat" where
  "F1_instructions =
     directory ''F1/.copilot'' ''instructions''
       [plain_file ''F1/.copilot/instructions'' ''a.md'',
        plain_file ''F1/.copilot/instructions'' ''b.txt'']"

definition two_folder_answer :: "string list \<Rightarrow> string IFileStatResult list" where
  "two_folder_answer =
     map (\<lambda>location.
       if location = ''F1/.copilot/instructions''
       then \<lparr>stat = Some F1_instructions, success = True\<rparr>
       else failed)"

definition two_folder_reader :: "string PromptInstructionsFileReader" where
  "two_folder_reader =
     \<lparr>fileService = \<lparr>resolveAll_answer = two_folder_answer, requests = []\<rparr>,
      workspaceService =
        \<lparr>getWorkbenchState = WORKSPACE,
         getWorkspace = \<lparr>folders = [IWorkspaceFolder ''F1'', IWorkspaceFolder ''F2'']\<rparr>\<rparr>\<rparr>"

text \<open>
  One folder \<open>W\<close> whose instructions folder has one child for each case of the filter;
  the subdirectory \<open>sub.md\<close> has a Markdown file of its own.
\<close>

definition mixed_listing :: "string IFileStat list" where
  "mixed_listing =
     [plain_file ''W/.copilot/instructions'' ''foo.md'',
      plain_file ''W/.copilot/instructions'' ''foo.MD'',
      plain_file ''W/.copilot/instructions'' ''.md'',
      plain_file ''W/.copilot/instructions'' ''notes.txt'',
      directory ''W/.copilot/instructions'' ''sub.md''
        [plain_file ''W/.copilot/instructions/sub.md'' ''inner.md''],
      plain_file ''W/.copilot/instructions'' ''a.b.md'']"

definition mixed_reader :: "string PromptInstructionsFileReader" where
  "mixed_reader =
     \<lparr>fileService =
        \<lparr>resolveAll_answer =
           map (\<lambda>location.
             \<lparr>stat = Some (directory ''W/.copilot'' ''instructions'' mixed_listing),
              success = True\<rparr>),
         requests = []\<rparr>,
      workspaceService =
        \<lparr>getWorkbenchState = FOLDER,
         getWorkspace = \<lparr>folders = [IWorkspaceFolder ''W'']\<rparr>\<rparr>\<rparr>"

text \<open>
  A store in which the model at address 0 has the primary document \<open>primaryDoc\<close> with
  the valid references \<open>refA\<close> and \<open>refB\<close>, and the same store with no association.
\<close>

definition attached_heap :: "string heap" where
  "attached_heap =
     \<lparr>models = (\<lambda>a. \<lparr>promptInstructions =
          Some \<lparr>uri = ''primaryDoc'', validFileReferenceUris = [''refA'', ''refB'']\<rparr>\<rparr>),
      widgets = (\<lambda>a. \<lparr>attachmentsModel = 0, priv_enabled = True, priv_uri = None,
                     isDisposed = False\<rparr>),
      effects = []\<rparr>"

definition detached_heap :: "string heap" where
  "detached_heap =
     \<lparr>models = (\<lambda>a. \<lparr>promptInstructions = None\<rparr>),
      widgets = (\<lambda>a. \<lparr>attachmentsModel = 0, priv_enabled = True, priv_uri = None,
                     isDisposed = False\<rparr>),
      effects = []\<rparr>"

section \<open>Properties of the discovery\<close>

subsection \<open>The two loops as a filter\<close>

lemma endsWith_iff: "endsWith s t \<longleftrightarrow> (\<exists>p. s = p @ t)"
proof
  assume "endsWith s t"
  then have "length t \<le> length s" and d: "drop (length s - length t) s = t"
    by (auto simp: endsWith_def split: if_splits)
  have "s = take (length s - length t) s @ drop (length s - length t) s" by simp
  with d show "\<exists>p. s = p @ t" by metis
next
  assume "\<exists>p. s = p @ t"
  then show "endsWith s t" by (auto simp: endsWith_def)
qed

lemma scanChildren_filter:
  "scanChildren cs files =
     files @ map resource
       (filter (\<lambda>c. \<not> isDirectory c \<and> endsWith (name c) INSTRUCTIONS_FILE_EXTENSION) cs)"
  by (induction cs arbitrary: files) auto

lemma scanResults_each:
  "scanResults rs files = files @ concat (map (\<lambda>r. scanResults [r] []) rs)"
proof (induction rs arbitrary: files)
  case Nil
  show ?case by simp
next
  case (Cons r rs)
  have ch: "scanChildren cs files = files @ scanChildren cs []" for cs
    by (simp add: scanChildren_filter)
  show ?case
    by (simp add: Cons.IH ch split: option.splits)
qed

lemma scanResults_concat: "scanResults (rs @ rs') [] = scanResults rs [] @ scanResults rs' []"
  by (simp add: scanResults_each [of "rs @ rs'"] scanResults_each [of rs]
      scanResults_each [of rs'])

lemma scanResults_listing:
  "success r \<Longrightarrow> stat r = Some st \<Longrightarrow> children st = Some cs \<Longrightarrow>
     scanResults [r] [] =
       map resource (filter (\<lambda>c. \<not> isDirectory c \<and> (\<exists>p. name c = p @ ''.md'')) cs)"
  by (simp add: scanChildren_filter endsWith_iff INSTRUCTIONS_FILE_EXTENSION_def)

lemma scanResults_unresolved:
  "\<not> success r \<or> stat r = None \<or> (\<exists>st. stat r = Some st \<and> children st = None) \<Longrightarrow>
     scanResults [r] [] = []"
  by (auto split: option.splits)

subsection \<open>What one call of \<^verbatim>\<open>listFiles\<close> returns and requests\<close>

lemma listFiles_result:
  "fst (listFiles joinPath this) =
     scanResults (resolveAll_answer (fileService this) (getSourceLocations joinPath this)) []"
  by (simp add: listFiles_def findInstructionsFiles_def resolveAll_def Let_def)

lemma listFiles_requests:
  "requests (fileService (snd (listFiles joinPath this))) =
     requests (fileService this) @ [getSourceLocations joinPath this]"
  by (simp add: listFiles_def findInstructionsFiles_def resolveAll_def Let_def)

lemma mixed_locations:
  "getSourceLocations example_joinPath mixed_reader = [''W/.copilot/instructions'']"
  by (simp add: getSourceLocations_def mixed_reader_def example_joinPath_def
      INSTRUCTIONS_FOLDER_NAME_def)

lemma two_folder_locations:
  "getSourceLocations example_joinPath two_folder_reader =
     [''F1/.copilot/instructions'', ''F2/.copilot/instructions'']"
  by (simp add: getSourceLocations_def two_folder_reader_def example_joinPath_def
      INSTRUCTIONS_FOLDER_NAME_def)

subsection \<open>The empty workspace\<close>

text \<open>
  C1, as stated: in a workspace whose state is \<open>EMPTY\<close>, \<^verbatim>\<open>listFiles\<close> returns the empty
  sequence and \<^verbatim>\<open>resolveAll\<close> is not invoked at all. The second half fails.
  \<^verbatim>\<open>getSourceLocations\<close> returns no location, but \<^verbatim>\<open>listFiles\<close> hands that empty
  list to \<^verbatim>\<open>findInstructionsFiles\<close>, whose first statement calls \<^verbatim>\<open>resolveAll\<close>:
  the storage collaborator receives one batch, an empty one.
\<close>

theorem empty_workspace_invokes_resolveAll:
  "getWorkbenchState (workspaceService empty_reader) = EMPTY \<and>
   requests (fileService empty_reader) = [] \<and>
   requests (fileService (snd (listFiles example_joinPath empty_reader))) = [[]] \<and>
   \<not> (fst (listFiles example_joinPath empty_reader) = [] \<and>
      requests (fileService (snd (listFiles example_joinPath empty_reader))) =
        requests (fileService empty_reader))"
  by (simp add: listFiles_requests getSourceLocations_def empty_reader_def)

text \<open>
  C1, amended: in a workspace whose state is \<open>EMPTY\<close>, \<^verbatim>\<open>listFiles\<close> issues exactly one
  \<^verbatim>\<open>resolveAll\<close> request, and that request names no location; it returns the empty
  sequence whenever the storage collaborator answers the empty batch with no results.
\<close>

theorem empty_workspace_empty_batch:
  "getWorkbenchState (workspaceService this) = EMPTY \<Longrightarrow>
     requests (fileService (snd (listFiles joinPath this))) = requests (fileService this) @ [[]] \<and>
     (resolveAll_answer (fileService this) [] = [] \<longrightarrow> fst (listFiles joinPath this) = [])"
  by (simp add: listFiles_requests listFiles_result getSourceLocations_def)

theorem empty_workspace_empty_batch_witness:
  "getWorkbenchState (workspaceService empty_reader) = EMPTY \<and>
   resolveAll_answer (fileService empty_reader) [] = [] \<and>
   requests (fileService (snd (listFiles example_joinPath empty_reader))) = [[]] \<and>
   fst (listFiles example_joinPath empty_reader) = []"
proof -
  have s: "getWorkbenchState (workspaceService empty_reader) = EMPTY"
    by (simp add: empty_reader_def)
  have a: "resolveAll_answer (fileService empty_reader) [] = []"
    by (simp add: empty_reader_def)
  have r: "requests (fileService empty_reader) = []"
    by (simp add: empty_reader_def)
  show ?thesis
    using empty_workspace_empty_batch [OF s, of example_joinPath] s a r by simp
qed

subsection \<open>The filter on the children of a listing\<close>

text \<open>
  C3: for every resolved directory listing, wherever it stands in the batch, the
  children that reach the result are those that are not directories and whose name
  ends with \<open>.md\<close>, compared case-sensitively; they appear as their resources, in the
  order of the listing. A directory is dropped whatever its name, and its own children
  are not looked at. The witness runs the listing with \<open>foo.md\<close>, \<open>foo.MD\<close>, \<open>.md\<close>,
  \<open>notes.txt\<close>, the directory \<open>sub.md\<close> and \<open>a.b.md\<close>: the file named exactly \<open>.md\<close>
  is kept.
\<close>

theorem kept_children:
  assumes "resolveAll_answer (fileService this) (getSourceLocations joinPath this) =
             before @ [r] @ after"
      and "success r" and "stat r = Some st" and "children st = Some cs"
  shows "fst (listFiles joinPath this) =
           scanResults before [] @
           map resource (filter (\<lambda>c. \<not> isDirectory c \<and> (\<exists>p. name c = p @ ''.md'')) cs) @
           scanResults after []"
proof -
  have "fst (listFiles joinPath this) = scanResults (before @ [r] @ after) []"
    using assms(1) by (simp add: listFiles_result)
  also have "\<dots> = scanResults before [] @ scanResults [r] [] @ scanResults after []"
    by (simp only: scanResults_concat)
  finally show ?thesis
    using scanResults_listing [OF assms(2-4)] by simp
qed

theorem kept_children_witness:
  "fst (listFiles example_joinPath mixed_reader) =
     [''W/.copilot/instructions/foo.md'', ''W/.copilot/instructions/.md'',
      ''W/.copilot/instructions/a.b.md'']"
proof -
  let ?st = "directory ''W/.copilot'' ''instructions'' mixed_listing"
  let ?r = "\<lparr>stat = Some ?st, success = True\<rparr>"
  have a: "resolveAll_answer (fileService mixed_reader)
             (getSourceLocations example_joinPath mixed_reader) = [] @ [?r] @ []"
    by (simp add: mixed_locations) (simp add: mixed_reader_def)
  have c: "children ?st = Some mixed_listing"
    by (simp add: directory_def)
  have "fst (listFiles example_joinPath mixed_reader) =
          scanResults [] [] @
          map resource
            (filter (\<lambda>c. \<not> isDirectory c \<and> (\<exists>p. name c = p @ ''.md'')) mixed_listing) @
          scanResults [] []"
    by (rule kept_children [OF a _ _ c]) simp_all
  then show ?thesis
    by (simp add: mixed_listing_def plain_file_def directory_def example_joinPath_def
        endsWith_iff [symmetric] endsWith_def)
qed

subsection \<open>The batch of candidate locations\<close>

text \<open>
  C7: in a workspace whose state is not \<open>EMPTY\<close> and that has N folders,
  \<^verbatim>\<open>listFiles\<close> adds exactly one request to those the storage collaborator has
  received. The request has N locations, and the i-th is the i-th folder's \<^verbatim>\<open>uri\<close>
  joined with \<open>.copilot/instructions\<close>.
\<close>

theorem one_batch_of_candidate_locations:
  assumes "getWorkbenchState (workspaceService this) \<noteq> EMPTY"
  shows "requests (fileService (snd (listFiles joinPath this))) =
           requests (fileService this) @ [getSourceLocations joinPath this] \<and>
         length (getSourceLocations joinPath this) =
           length (folders (getWorkspace (workspaceService this))) \<and>
         (\<forall>i < length (folders (getWorkspace (workspaceService this))).
            getSourceLocations joinPath this ! i =
              joinPath (IWorkspaceFolder.uri (folders (getWorkspace (workspaceService this)) ! i))
                ''.copilot/instructions'')"
  using assms
  by (simp add: listFiles_requests getSourceLocations_def INSTRUCTIONS_FOLDER_NAME_def)

theorem one_batch_of_candidate_locations_witness:
  "getWorkbenchState (workspaceService two_folder_reader) \<noteq> EMPTY \<and>
   requests (fileService (snd (listFiles example_joinPath two_folder_reader))) =
     [[''F1/.copilot/instructions'', ''F2/.copilot/instructions'']]"
proof -
  have s: "getWorkbenchState (workspaceService two_folder_reader) \<noteq> EMPTY"
    by (simp add: two_folder_reader_def)
  have r: "requests (fileService two_folder_reader) = []"
    by (simp add: two_folder_reader_def)
  show ?thesis
    using one_batch_of_candidate_locations [OF s, of example_joinPath] s r
    by (simp add: two_folder_locations)
qed

subsection \<open>Locations that do not resolve\<close>

text \<open>
  C8: a location whose result reports failure, or reports success without a \<^verbatim>\<open>stat\<close>
  or without a \<^verbatim>\<open>children\<close> listing, adds nothing to the result, and the locations
  before and after it add what they add on their own, in order. \<^verbatim>\<open>listFiles\<close> has no
  branch that raises: the embedding is a total function without an error value. The
  witness is the workspace with the folders \<open>F1\<close> and \<open>F2\<close>, where the instructions
  folder of \<open>F1\<close> holds \<open>a.md\<close> and \<open>b.txt\<close> and that of \<open>F2\<close> fails to resolve.
\<close>

theorem unresolved_location_skipped:
  assumes "resolveAll_answer (fileService this) (getSourceLocations joinPath this) =
             before @ [r] @ after"
      and "\<not> success r \<or> stat r = None \<or> (\<exists>st. stat r = Some st \<and> children st = None)"
  shows "fst (listFiles joinPath this) = scanResults before [] @ scanResults after []"
proof -
  have "fst (listFiles joinPath this) = scanResults (before @ [r] @ after) []"
    using assms(1) by (simp add: listFiles_result)
  also have "\<dots> = scanResults before [] @ scanResults [r] [] @ scanResults after []"
    by (simp only: scanResults_concat)
  finally show ?thesis
    using scanResults_unresolved [OF assms(2)] by simp
qed

theorem unresolved_location_skipped_witness:
  "fst (listFiles example_joinPath two_folder_reader) = [''F1/.copilot/instructions/a.md'']"
proof -
  let ?r1 = "\<lparr>stat = Some F1_instructions, success = True\<rparr>"
  have a: "resolveAll_answer (fileService two_folder_reader)
             (getSourceLocations example_joinPath two_folder_reader) = [?r1] @ [failed] @ []"
    by (simp add: two_folder_locations) (simp add: two_folder_reader_def two_folder_answer_def)
  have u: "\<not> success failed \<or> stat failed = None \<or>
           (\<exists>st. stat failed = Some st \<and> children st = None)"
    by (simp add: failed_def)
  have "fst (listFiles example_joinPath two_folder_reader) =
          scanResults [?r1] [] @ scanResults [] []"
    by (rule unresolved_location_skipped [OF a u])
  then show ?thesis
    by (simp add: F1_instructions_def plain_file_def directory_def example_joinPath_def
        endsWith_def INSTRUCTIONS_FILE_EXTENSION_def)
qed

section \<open>Properties of the widget\<close>

subsection \<open>What each method writes\<close>

lemma toggle_widgets:
  "widgets (snd (toggle this h)) =
     (widgets h)(this := (widgets h this)\<lparr>priv_enabled := \<not> priv_enabled (widgets h this)\<rparr>)"
  by (simp add: toggle_def render_def fire_onEnabledStateChange_def Let_def)

lemma toggle_effects:
  "effects (snd (toggle this h)) =
     effects h @ [(this, EnabledStateChange), (this, Render (priv_uri (widgets h this) \<noteq> None))]"
  by (simp add: toggle_def render_def fire_onEnabledStateChange_def Let_def)

lemma toggle_returns_this: "fst (toggle this h) = this"
  by (simp add: toggle_def Let_def)

lemma listener_widgets:
  "widgets (onDidChangeContext_listener this h) =
     (widgets h)(this := (widgets h this)
        \<lparr>priv_uri := map_option uri
           (promptInstructions (models h (attachmentsModel (widgets h this))))\<rparr>)"
  by (simp add: onDidChangeContext_listener_def render_def Let_def)

lemma listener_uri:
  "priv_uri (widgets (onDidChangeContext_listener this h) this) =
     map_option uri (promptInstructions (models h (attachmentsModel (widgets h this))))"
  by (simp add: listener_widgets)

lemma listener_attachmentsModel:
  "attachmentsModel (widgets (onDidChangeContext_listener this h) w) =
     attachmentsModel (widgets h w)"
  by (simp add: listener_widgets)

lemma render_widgets: "widgets (render this h) = widgets h"
  by (simp add: render_def)

subsection \<open>Disposal\<close>

text \<open>
  Disposal is idempotent, and an emission of the model after it does not reach the
  listener, so it causes no run of \<^verbatim>\<open>render\<close>.
\<close>

lemma dispose_idempotent: "dispose this (dispose this h) = dispose this h"
  by (simp add: dispose_def Let_def)

lemma dispose_effects: "effects (dispose this h) = effects h"
  by (simp add: dispose_def Let_def)

lemma disposed_after_dispose: "isDisposed (widgets (dispose this h) this)"
  by (simp add: dispose_def Let_def)

lemma no_listener_after_dispose:
  "onDidChangeContext_fire this (dispose this h) = dispose this h"
  by (simp add: onDidChangeContext_fire_def disposed_after_dispose)

lemma no_render_after_dispose:
  "count_effect this is_Render (onDidChangeContext_fire this (dispose this h)) =
     count_effect this is_Render h"
  by (simp add: no_listener_after_dispose dispose_effects count_effect_def)

text \<open>
  \<^verbatim>\<open>toggle\<close> does not look at the state of the store: called on a disposed widget it
  still fires \<^verbatim>\<open>onEnabledStateChange\<close>, once per call.
\<close>

lemma toggle_after_dispose:
  "count_effect this is_EnabledStateChange (snd (toggle this (dispose this h))) =
     count_effect this is_EnabledStateChange h + 1"
  by (simp add: toggle_effects dispose_effects count_effect_def is_EnabledStateChange_def)

text \<open>
  C2: after the widget is disposed no further notification is fired: an emission of
  the model triggers no re-render, no \<^verbatim>\<open>onEnabledStateChange\<close> is emitted, and
  disposal is idempotent. The first and the last part hold (lemmas above). The second
  does not: the emitter \<^verbatim>\<open>_onEnabledStateChange\<close> is the one disposable of the class
  that is not passed to \<^verbatim>\<open>_register\<close>, so disposal leaves it alive. The run below
  constructs a widget, attaches a document, disposes the widget and calls
  \<^verbatim>\<open>toggle\<close>: the notification is delivered and \<^verbatim>\<open>render\<close> runs.
\<close>

theorem toggle_after_dispose_notifies:
  "isDisposed (widgets (dispose 0 (onDidChangeContext_fire 0 (constructor 0 0 attached_heap))) 0) \<and>
   effects (dispose 0 (onDidChangeContext_fire 0 (constructor 0 0 attached_heap))) =
     [(0, Render False), (0, Render True)] \<and>
   effects (snd (toggle 0 (dispose 0 (onDidChangeContext_fire 0 (constructor 0 0 attached_heap))))) =
     [(0, Render False), (0, Render True), (0, EnabledStateChange), (0, Render True)]"
  by (simp add: toggle_effects dispose_effects disposed_after_dispose)
    (simp add: dispose_def onDidChangeContext_fire_def onDidChangeContext_listener_def
      constructor_def render_def attached_heap_def Let_def)

subsection \<open>References\<close>

text \<open>
  C4: \<^verbatim>\<open>references\<close> is empty when the model has no \<^verbatim>\<open>promptInstructions\<close>;
  otherwise it is the model's \<^verbatim>\<open>validFileReferenceUris\<close> in their order followed by
  the \<^verbatim>\<open>uri\<close> of the primary document, which is therefore the last element.
\<close>

theorem references_order:
  "(promptInstructions (models h (attachmentsModel (widgets h this))) = None \<longrightarrow>
      references this h = []) \<and>
   (\<forall>p. promptInstructions (models h (attachmentsModel (widgets h this))) = Some p \<longrightarrow>
      references this h = validFileReferenceUris p @ [uri p] \<and>
      butlast (references this h) = validFileReferenceUris p \<and>
      last (references this h) = uri p)"
  by (simp add: references_def)

theorem references_order_witness:
  "promptInstructions (models detached_heap (attachmentsModel (widgets detached_heap 0))) = None \<and>
   references 0 detached_heap = [] \<and>
   promptInstructions (models attached_heap (attachmentsModel (widgets attached_heap 0))) =
     Some \<lparr>uri = ''primaryDoc'', validFileReferenceUris = [''refA'', ''refB'']\<rparr> \<and>
   references 0 attached_heap = [''refA'', ''refB'', ''primaryDoc'']"
proof -
  have d: "promptInstructions (models detached_heap (attachmentsModel (widgets detached_heap 0)))
             = None"
    by (simp add: detached_heap_def)
  have a: "promptInstructions (models attached_heap (attachmentsModel (widgets attached_heap 0)))
             = Some \<lparr>uri = ''primaryDoc'', validFileReferenceUris = [''refA'', ''refB'']\<rparr>"
    by (simp add: attached_heap_def)
  show ?thesis
    using references_order [of detached_heap 0] references_order [of attached_heap 0] d a
    by simp
qed

subsection \<open>Visibility\<close>

text \<open>
  C5: in every state of a widget, reachable or not, \<^verbatim>\<open>visible\<close> holds exactly when
  \<^verbatim>\<open>_uri\<close> is defined. When the listener runs while the model is associated with a
  document \<open>U\<close>, the widget is visible afterwards and \<^verbatim>\<open>_uri\<close> is \<open>U\<close>; when it runs
  again after the model has lost its association, the widget is not visible.
\<close>

theorem visible_iff_uri_defined:
  "(visible this h \<longleftrightarrow> priv_uri (widgets h this) \<noteq> None) \<and>
   (promptInstructions (models h (attachmentsModel (widgets h this))) = Some p \<longrightarrow>
      priv_uri (widgets (onDidChangeContext_listener this h) this) = Some (uri p) \<and>
      visible this (onDidChangeContext_listener this h) \<and>
      (promptInstructions (ms (attachmentsModel (widgets h this))) = None \<longrightarrow>
         \<not> visible this
             (onDidChangeContext_listener this
                ((onDidChangeContext_listener this h)\<lparr>models := ms\<rparr>))))"
  by (simp add: visible_def listener_uri listener_attachmentsModel)

theorem visible_iff_uri_defined_witness:
  "promptInstructions (models (constructor 0 0 attached_heap)
      (attachmentsModel (widgets (constructor 0 0 attached_heap) 0))) =
     Some \<lparr>uri = ''primaryDoc'', validFileReferenceUris = [''refA'', ''refB'']\<rparr> \<and>
   promptInstructions (models detached_heap
      (attachmentsModel (widgets (constructor 0 0 attached_heap) 0))) = None \<and>
   \<not> visible 0 (constructor 0 0 attached_heap) \<and>
   visible 0 (onDidChangeContext_listener 0 (constructor 0 0 attached_heap)) \<and>
   \<not> visible 0
       (onDidChangeContext_listener 0
          ((onDidChangeContext_listener 0 (constructor 0 0 attached_heap))
             \<lparr>models := models detached_heap\<rparr>))"
proof -
  let ?h = "constructor 0 0 attached_heap"
  have a: "promptInstructions (models ?h (attachmentsModel (widgets ?h 0))) =
     Some \<lparr>uri = ''primaryDoc'', validFileReferenceUris = [''refA'', ''refB'']\<rparr>"
    by (simp add: constructor_def render_def attached_heap_def)
  have d: "promptInstructions (models detached_heap (attachmentsModel (widgets ?h 0))) = None"
    by (simp add: detached_heap_def)
  have u: "priv_uri (widgets ?h 0) = None"
    by (simp add: constructor_def render_def)
  show ?thesis
    using visible_iff_uri_defined
            [of 0 ?h "\<lparr>uri = ''primaryDoc'', validFileReferenceUris = [''refA'', ''refB'']\<rparr>"
                "models detached_heap"] a d u
    by simp
qed

subsection \<open>Toggling\<close>

text \<open>
  C6: each call of \<^verbatim>\<open>toggle\<close> returns the receiver and fires one
  \<^verbatim>\<open>onEnabledStateChange\<close>; two calls in succession fire two and restore
  \<^verbatim>\<open>_enabled\<close>, indeed every field of every widget.
\<close>

theorem toggle_twice:
  "fst (toggle this h) = this \<and>
   fst (toggle (fst (toggle this h)) (snd (toggle this h))) = this \<and>
   priv_enabled (widgets (snd (toggle this h)) this) = (\<not> priv_enabled (widgets h this)) \<and>
   priv_enabled (widgets (snd (toggle this (snd (toggle this h)))) this) =
     priv_enabled (widgets h this) \<and>
   widgets (snd (toggle this (snd (toggle this h)))) = widgets h \<and>
   count_effect this is_EnabledStateChange (snd (toggle this h)) =
     count_effect this is_EnabledStateChange h + 1 \<and>
   count_effect this is_EnabledStateChange (snd (toggle this (snd (toggle this h)))) =
     count_effect this is_EnabledStateChange h + 2"
  by (simp add: toggle_returns_this toggle_widgets toggle_effects count_effect_def
      is_EnabledStateChange_def)

subsection \<open>The two axes of the state\<close>

text \<open>
  C9: \<^verbatim>\<open>toggle\<close> writes the field \<^verbatim>\<open>_enabled\<close> of the receiver and nothing else in
  the widgets, so \<^verbatim>\<open>_uri\<close> and \<^verbatim>\<open>visible\<close> stay as they are; the listener writes the
  field \<^verbatim>\<open>_uri\<close> of the receiver and nothing else, so \<^verbatim>\<open>_enabled\<close> stays as it is;
  and when an operation of the class changes the \<^verbatim>\<open>_uri\<close> of some widget, the
  operation is the listener and the widget is its receiver.
\<close>

theorem independent_axes:
  "widgets (snd (toggle this h)) =
     (widgets h)(this := (widgets h this)\<lparr>priv_enabled := \<not> priv_enabled (widgets h this)\<rparr>) \<and>
   priv_uri (widgets (snd (toggle this h)) w) = priv_uri (widgets h w) \<and>
   visible w (snd (toggle this h)) = visible w h \<and>
   widgets (onDidChangeContext_listener this h) =
     (widgets h)(this := (widgets h this)
        \<lparr>priv_uri := map_option uri
           (promptInstructions (models h (attachmentsModel (widgets h this))))\<rparr>) \<and>
   priv_enabled (widgets (onDidChangeContext_listener this h) w) = priv_enabled (widgets h w) \<and>
   (priv_uri (widgets (exec op this h) w) \<noteq> priv_uri (widgets h w) \<longrightarrow>
      op = DidChangeContext \<and> w = this)"
proof -
  have t: "priv_uri (widgets (snd (toggle this h)) w) = priv_uri (widgets h w)"
    by (simp add: toggle_widgets)
  have only: "priv_uri (widgets (exec op this h) w) \<noteq> priv_uri (widgets h w) \<longrightarrow>
      op = DidChangeContext \<and> w = this"
  proof (cases op)
    case Toggle
    with t show ?thesis by simp
  next
    case DidChangeContext
    then show ?thesis by (simp add: listener_widgets)
  next
    case CallRender
    then show ?thesis by (simp add: render_widgets)
  next
    case GetVisible
    then show ?thesis by simp
  next
    case GetReferences
    then show ?thesis by simp
  qed
  show ?thesis
    using t only
    by (simp add: toggle_widgets listener_widgets visible_def)
qed

theorem independent_axes_witness:
  "priv_uri (widgets (exec DidChangeContext 0 (constructor 0 0 attached_heap)) 0) \<noteq>
     priv_uri (widgets (constructor 0 0 attached_heap) 0) \<and>
   priv_enabled (widgets (exec DidChangeContext 0 (constructor 0 0 attached_heap)) 0) =
     priv_enabled (widgets (constructor 0 0 attached_heap) 0) \<and>
   priv_uri (widgets (exec Toggle 0 (constructor 0 0 attached_heap)) 0) =
     priv_uri (widgets (constructor 0 0 attached_heap) 0) \<and>
   priv_enabled (widgets (exec Toggle 0 (constructor 0 0 attached_heap)) 0) \<noteq>
     priv_enabled (widgets (constructor 0 0 attached_heap) 0)"
proof -
  let ?h = "constructor 0 0 attached_heap"
  have c: "priv_uri (widgets (exec DidChangeContext 0 ?h) 0) \<noteq> priv_uri (widgets ?h 0)"
    by (simp add: listener_widgets) (simp add: constructor_def render_def attached_heap_def)
  show ?thesis
    using independent_axes [of 0 ?h 0 DidChangeContext] c
    by simp
qed

subsection \<open>References and the cached identifier\<close>

text \<open>
  C10: \<^verbatim>\<open>references\<close> reads the model, not \<^verbatim>\<open>_uri\<close>. A widget constructed on a
  model that already has a \<^verbatim>\<open>promptInstructions\<close> association has processed no
  notification: its \<^verbatim>\<open>_uri\<close> is undefined and it is not visible, while its
  \<^verbatim>\<open>references\<close> are the non-empty sequence that the model gives.
\<close>

theorem references_read_live_model:
  "promptInstructions (models h model) = Some p \<Longrightarrow>
     priv_uri (widgets (constructor this model h) this) = None \<and>
     \<not> visible this (constructor this model h) \<and>
     references this (constructor this model h) = validFileReferenceUris p @ [uri p] \<and>
     references this (constructor this model h) \<noteq> []"
  by (simp add: constructor_def render_def visible_def references_def)

theorem references_read_live_model_witness:
  "promptInstructions (models attached_heap 0) =
     Some \<lparr>uri = ''primaryDoc'', validFileReferenceUris = [''refA'', ''refB'']\<rparr> \<and>
   \<not> visible 0 (constructor 0 0 attached_heap) \<and>
   references 0 (constructor 0 0 attached_heap) = [''refA'', ''refB'', ''primaryDoc'']"
proof -
  have a: "promptInstructions (models attached_heap 0) =
     Some \<lparr>uri = ''primaryDoc'', validFileReferenceUris = [''refA'', ''refB'']\<rparr>"
    by (simp add: attached_heap_def)
  show ?thesis
    using references_read_live_model [OF a, of 0] a by simp
qed

end
